theory Spec2Isabelle
  imports Complex_Main "HOL-Library.AList"
begin

section \<open>JavaScript values\<close>

text \<open>
  A JavaScript number is a finite value, one of the two infinities, or NaN. The functions
  verified here only compare numbers and select one of them (\<open>Math.min\<close>, \<open>Math.max\<close>,
  \<open><\<close>, \<open>>=\<close>); the finite values are therefore read as reals.
\<close>

datatype number = NaN | NegInf | Fin real | PosInf

text \<open>The comparison \<open>a <= b\<close> of JavaScript: false as soon as one side is NaN.\<close>

fun num_le :: "number \<Rightarrow> number \<Rightarrow> bool" where
  "num_le NaN _ = False"
| "num_le _ NaN = False"
| "num_le NegInf _ = True"
| "num_le _ PosInf = True"
| "num_le (Fin x) (Fin y) = (x \<le> y)"
| "num_le _ _ = False"

text \<open>\<open>Math.min(a, b)\<close> and \<open>Math.max(a, b)\<close>: NaN as soon as one argument is NaN.\<close>

definition Math_min :: "number \<Rightarrow> number \<Rightarrow> number" where
  "Math_min a b = (if a = NaN \<or> b = NaN then NaN else if num_le a b then a else b)"

definition Math_max :: "number \<Rightarrow> number \<Rightarrow> number" where
  "Math_max a b = (if a = NaN \<or> b = NaN then NaN else if num_le a b then b else a)"

text \<open>
  A property that holds a number, or is absent (\<open>undefined\<close>): \<open>None\<close> is the absent
  property. \<open>truthy\<close> is the test that \<open>||\<close> and \<open>if\<close> apply: \<open>undefined\<close>, \<open>NaN\<close> and
  \<open>0\<close> are falsy.
\<close>

fun truthy :: "number option \<Rightarrow> bool" where
  "truthy None = False"
| "truthy (Some NaN) = False"
| "truthy (Some (Fin x)) = (x \<noteq> 0)"
| "truthy (Some NegInf) = True"
| "truthy (Some PosInf) = True"

text \<open>\<open>v || d\<close> for a numeric default \<open>d\<close>: the left operand when it is truthy.\<close>

fun js_or :: "number option \<Rightarrow> number \<Rightarrow> number" where
  "js_or (Some n) d = (if truthy (Some n) then n else d)"
| "js_or None d = d"

text \<open>
  The values a property of an object may hold: a number, a string, a boolean or an
  object (an array or a function is an object with the keys it has). A property that is
  \<open>null\<close> or \<open>undefined\<close> is not a value here; where the source provides for a missing
  property, the property is optional in the model. An object is the list of its own
  enumerable properties in enumeration order; where a key occurs twice in the list, the
  first occurrence is the property.
\<close>

datatype jsval = Num number | Str string | Bool bool | Obj "(string \<times> jsval) list"

type_synonym obj = "(string \<times> jsval) list"

section \<open>Animation parameters\<close>

text \<open>
  The parameter object (\<open>params\<close> of \<open>validateParameters\<close>, \<open>animationParams\<close> of the
  animation engine) has the groups \<open>timing\<close>, \<open>secondaryAction\<close> and \<open>squashAndStretch\<close>.
  Each group record names the fields that the performance engine reads or writes; every
  other field of the group is carried in its \<open>_other\<close> component.
\<close>

record timing_params =
  maxSegments :: "number option"
  organicVariation :: "number option"
  timing_other :: obj

record secondaryAction_params =
  jiggleIntensity :: "number option"
  maxJiggles :: "number option"
  secondaryAction_other :: obj

record squashAndStretch_params =
  enabled :: "bool option"
  squashAmount :: "number option"
  stretchAmount :: "number option"
  squashAndStretch_other :: obj

record ('t, 's, 'q) animation_params =
  timing :: 't
  secondaryAction :: 's
  squashAndStretch :: 'q
  other_groups :: obj

text \<open>
  \<open>validateParameters\<close> tests each group before it touches it (\<open>if (params.timing)\<close>), so
  in its argument a group may be absent.
\<close>

type_synonym params =
  "(timing_params option, secondaryAction_params option, squashAndStretch_params option)
     animation_params"

section \<open>PerformanceConstraints\<close>

definition MAX_CONCURRENT_ANIMATIONS :: int where
  "MAX_CONCURRENT_ANIMATIONS = 8"

definition MAX_SEGMENTS_PER_YEAR :: number where
  "MAX_SEGMENTS_PER_YEAR = Fin 4"

definition MIN_ANIMATION_DURATION :: number where
  "MIN_ANIMATION_DURATION = Fin 0.05"

definition MAX_TIMING_VARIATION :: number where
  "MAX_TIMING_VARIATION = Fin 0.5"

definition GPU_ONLY_PROPERTIES :: "string list" where
  "GPU_ONLY_PROPERTIES =
     [''opacity'', ''transform'', ''x'', ''y'', ''rotation'', ''scale'',
      ''scaleX'', ''scaleY'', ''rotationX'', ''rotationY'', ''rotationZ'']"

subsection \<open>validateParameters\<close>

definition validate_timing :: "timing_params \<Rightarrow> timing_params" where
  "validate_timing t =
     (let t1 = t\<lparr>maxSegments :=
                   Some (Math_min (js_or (maxSegments t) (Fin 4)) MAX_SEGMENTS_PER_YEAR)\<rparr>
      in t1\<lparr>organicVariation :=
                Some (Math_min (js_or (organicVariation t1) (Fin 0.3)) MAX_TIMING_VARIATION)\<rparr>)"

definition validate_secondaryAction :: "secondaryAction_params \<Rightarrow> secondaryAction_params" where
  "validate_secondaryAction s =
     (let s1 = s\<lparr>jiggleIntensity := Some (Math_min (js_or (jiggleIntensity s) (Fin 2)) (Fin 3))\<rparr>
      in s1\<lparr>maxJiggles := Some (Math_min (js_or (maxJiggles s1) (Fin 3)) (Fin 5))\<rparr>)"

definition validate_squashAndStretch :: "squashAndStretch_params \<Rightarrow> squashAndStretch_params" where
  "validate_squashAndStretch q =
     (let q1 = q\<lparr>squashAmount := Some (Math_max (js_or (squashAmount q) (Fin 0.9)) (Fin 0.7))\<rparr>
      in q1\<lparr>stretchAmount := Some (Math_min (js_or (stretchAmount q1) (Fin 1.1)) (Fin 1.3))\<rparr>)"

definition validateParameters :: "params \<Rightarrow> params" where
  "validateParameters params =
     (let p1 = (case timing params of
                  None \<Rightarrow> params
                | Some t \<Rightarrow> params\<lparr>timing := Some (validate_timing t)\<rparr>);
          p2 = (case secondaryAction p1 of
                  None \<Rightarrow> p1
                | Some s \<Rightarrow> p1\<lparr>secondaryAction := Some (validate_secondaryAction s)\<rparr>);
          p3 = (case squashAndStretch p2 of
                  None \<Rightarrow> p2
                | Some q \<Rightarrow> p2\<lparr>squashAndStretch := Some (validate_squashAndStretch q)\<rparr>)
      in p3)"

text \<open>
  The formulas as the specification writes them, with \<open>??\<close> for the default: \<open>v ?? d\<close> is
  \<open>d\<close> only when \<open>v\<close> is absent. \<open>field_of\<close> reads a field through a group that may be
  absent.
\<close>

definition nullish :: "number option \<Rightarrow> number \<Rightarrow> number" where
  "nullish v d = (case v of None \<Rightarrow> d | Some n \<Rightarrow> n)"

definition field_of :: "'g option \<Rightarrow> ('g \<Rightarrow> number option) \<Rightarrow> number option" where
  "field_of g field = (case g of None \<Rightarrow> None | Some r \<Rightarrow> field r)"

definition documented_formulas :: "params \<Rightarrow> params \<Rightarrow> bool" where
  "documented_formulas inp out \<longleftrightarrow>
     field_of (timing out) maxSegments =
       Some (Math_min (nullish (field_of (timing inp) maxSegments) (Fin 4)) (Fin 4)) \<and>
     field_of (timing out) organicVariation =
       Some (Math_min (nullish (field_of (timing inp) organicVariation) (Fin 0.3)) (Fin 0.5)) \<and>
     field_of (secondaryAction out) jiggleIntensity =
       Some (Math_min (nullish (field_of (secondaryAction inp) jiggleIntensity) (Fin 2)) (Fin 3)) \<and>
     field_of (secondaryAction out) maxJiggles =
       Some (Math_min (nullish (field_of (secondaryAction inp) maxJiggles) (Fin 3)) (Fin 5)) \<and>
     field_of (squashAndStretch out) squashAmount =
       Some (Math_max (nullish (field_of (squashAndStretch inp) squashAmount) (Fin 0.9)) (Fin 0.7)) \<and>
     field_of (squashAndStretch out) stretchAmount =
       Some (Math_min (nullish (field_of (squashAndStretch inp) stretchAmount) (Fin 1.1)) (Fin 1.3))"

text \<open>A requested value on which \<open>||\<close> and \<open>??\<close> agree: absent, or a number that is truthy.\<close>

definition absent_or_truthy :: "number option \<Rightarrow> bool" where
  "absent_or_truthy v \<longleftrightarrow> v = None \<or> truthy v"

subsection \<open>filterGPUProperties\<close>

text \<open>
  \<open>Object.keys\<close> of a value: the own enumerable keys of an object in order, the indices
  of a string, nothing for a number or a boolean.
\<close>

fun decimal :: "nat \<Rightarrow> string" where
  "decimal n =
     (if n < 10 then [char_of (48 + n)]
      else decimal (n div 10) @ [char_of (48 + n mod 10)])"

fun Object_keys :: "jsval \<Rightarrow> string list" where
  "Object_keys (Obj kvs) = map fst (AList.clearjunk kvs)"
| "Object_keys (Str s) = map decimal [0..<length s]"
| "Object_keys (Num _) = []"
| "Object_keys (Bool _) = []"

definition safeAttrs :: "string list" where
  "safeAttrs = [''width'', ''height'', ''d'', ''transform'', ''opacity'']"

definition isGPUSafeAttribute :: "jsval \<Rightarrow> bool" where
  "isGPUSafeAttribute attrProps = list_all (\<lambda>attr. attr \<in> set safeAttrs) (Object_keys attrProps)"

text \<open>
  The body of the \<open>forEach\<close>, for the key \<open>key\<close> and its value \<open>properties[key]\<close>. The
  state is the object \<open>safe\<close> built so far and the keys that \<open>console.warn\<close> has reported.
\<close>

definition filter_property :: "string \<times> jsval \<Rightarrow> obj \<times> string list \<Rightarrow> obj \<times> string list" where
  "filter_property kv acc =
     (case (kv, acc) of ((key, v), (safe, blocked)) \<Rightarrow>
        if key \<in> set GPU_ONLY_PROPERTIES then (AList.update key v safe, blocked)
        else if key = ''attr'' \<and> isGPUSafeAttribute v then (AList.update key v safe, blocked)
        else if key = ''duration'' \<or> key = ''ease'' \<or> key = ''delay''
          then (AList.update key v safe, blocked)
        else (safe, blocked @ [key]))"

definition filterGPUProperties :: "obj \<Rightarrow> obj \<times> string list" where
  "filterGPUProperties properties = fold filter_property (AList.clearjunk properties) ([], [])"

text \<open>The three ways in which a key with its value is on the allow-list.\<close>

definition allowed :: "string \<Rightarrow> jsval \<Rightarrow> bool" where
  "allowed key v \<longleftrightarrow>
     key \<in> set GPU_ONLY_PROPERTIES \<or>
     key \<in> {''duration'', ''ease'', ''delay''} \<or>
     (key = ''attr'' \<and> (\<forall>sub \<in> set (Object_keys v). sub \<in> set safeAttrs))"

section \<open>PerformanceMonitor\<close>

datatype tier = Low | Medium | High

text \<open>The bundle that \<open>getConstraints\<close> returns for a tier.\<close>

record constraint_bundle =
  bundle_maxSegments :: number
  maxJiggle :: number
  maxVariation :: number
  allowSquash :: bool
  allowSecondaryAction :: bool

record history_entry =
  entry_fps :: int
  timestamp :: int
  entry_performanceLevel :: tier

text \<open>
  A subscriber is known to the monitor by what a call of it does: it returns (\<open>None\<close>) or
  throws (\<open>Some\<close> of the error). The monitor state is the fields that the constructor sets;
  \<open>fps\<close> is always the result of \<open>Math.round\<close>, an integer.
\<close>

type_synonym callback = "int \<Rightarrow> tier \<Rightarrow> constraint_bundle \<Rightarrow> string option"

record monitor =
  fps :: int
  frameCount :: nat
  lastTime :: real
  performanceLevel :: tier
  monitoring :: bool
  history :: "history_entry list"
  callbacks :: "callback list"

text \<open>
  What the monitor does to its surroundings, in the order in which it happens: the console
  lines, the assignments to the parameters of the animation engine, and the calls it makes.
\<close>

datatype effect =
    Console_log_level_changed tier tier int
  | Call_enforceConstraints
  | Console_warn_strict_mode int
  | Assign_engine_param string jsval
  | Call_showPerformanceWarning int
  | Call_callback nat int tier constraint_bundle
  | Console_error_callback string
  | Call_updateUI int tier
  | Call_requestAnimationFrame

text \<open>
  The animation engine as the monitor sees it: the object \<open>animationParams\<close> that the
  constructor of \<open>ButteryAnimationEngine\<close> in \<open>animation-engine.js\<close> builds, in which the
  groups \<open>timing\<close>, \<open>secondaryAction\<close> and \<open>squashAndStretch\<close> that \<open>enforceConstraints\<close>
  writes into are present.
\<close>

type_synonym engine_params =
  "(timing_params, secondaryAction_params, squashAndStretch_params) animation_params"

record engine =
  animationParams :: engine_params

text \<open>The global object: \<open>window.animationEngine\<close> may not be set.\<close>

record window =
  animationEngine :: "engine option"
  trace :: "effect list"

definition emit :: "effect \<Rightarrow> window \<Rightarrow> window" where
  "emit e w = w\<lparr>trace := trace w @ [e]\<rparr>"

definition PerformanceMonitor :: "real \<Rightarrow> monitor" where
  "PerformanceMonitor now =
     \<lparr>fps = 60, frameCount = 0, lastTime = now, performanceLevel = High, monitoring = True,
      history = [], callbacks = []\<rparr>"

definition updateHistory :: "int \<Rightarrow> int \<Rightarrow> monitor \<Rightarrow> monitor" where
  "updateHistory pushed_at now m =
     (let h = history m @
            [\<lparr>entry_fps = fps m, timestamp = pushed_at,
              entry_performanceLevel = performanceLevel m\<rparr>];
          cutoff = now - 60000
      in m\<lparr>history := filter (\<lambda>entry. timestamp entry > cutoff) h\<rparr>)"

definition showPerformanceWarning :: "monitor \<Rightarrow> window \<Rightarrow> window" where
  "showPerformanceWarning m w = emit (Call_showPerformanceWarning (fps m)) w"

text \<open>The four assignments of \<open>enforceConstraints\<close>, in the order of the source.\<close>

definition force_safe_parameters :: "engine \<Rightarrow> engine" where
  "force_safe_parameters e =
     (let p = animationParams e;
          p1 = p\<lparr>timing := (timing p)\<lparr>maxSegments := Some (Fin 2)\<rparr>\<rparr>;
          p2 = p1\<lparr>secondaryAction := (secondaryAction p1)\<lparr>jiggleIntensity := Some (Fin 0)\<rparr>\<rparr>;
          p3 = p2\<lparr>timing := (timing p2)\<lparr>organicVariation := Some (Fin 0.1)\<rparr>\<rparr>;
          p4 = p3\<lparr>squashAndStretch := (squashAndStretch p3)\<lparr>enabled := Some False\<rparr>\<rparr>
      in e\<lparr>animationParams := p4\<rparr>)"

definition safe_parameter_assignments :: "effect list" where
  "safe_parameter_assignments =
     [Assign_engine_param ''timing.maxSegments'' (Num (Fin 2)),
      Assign_engine_param ''secondaryAction.jiggleIntensity'' (Num (Fin 0)),
      Assign_engine_param ''timing.organicVariation'' (Num (Fin 0.1)),
      Assign_engine_param ''squashAndStretch.enabled'' (Bool False)]"

definition enforceConstraints :: "monitor \<Rightarrow> window \<Rightarrow> window" where
  "enforceConstraints m w0 =
     (let w = emit Call_enforceConstraints w0 in
      if performanceLevel m = Low then
        (let w1 = emit (Console_warn_strict_mode (fps m)) w in
         case animationEngine w1 of
           None \<Rightarrow> w1
         | Some e \<Rightarrow>
             showPerformanceWarning m
               (w1\<lparr>animationEngine := Some (force_safe_parameters e),
                   trace := trace w1 @ safe_parameter_assignments\<rparr>))
      else w)"

definition classify :: "int \<Rightarrow> tier" where
  "classify f = (if f < 45 then Low else if f < 55 then Medium else High)"

definition adjustPerformanceLevel :: "monitor \<times> window \<Rightarrow> monitor \<times> window" where
  "adjustPerformanceLevel mw =
     (case mw of (m, w) \<Rightarrow>
        let previousLevel = performanceLevel m;
            m1 = m\<lparr>performanceLevel := classify (fps m)\<rparr>
        in if previousLevel \<noteq> performanceLevel m1
           then (m1, enforceConstraints m1
                       (emit (Console_log_level_changed previousLevel (performanceLevel m1) (fps m1)) w))
           else (m1, w))"

definition getConstraints :: "monitor \<Rightarrow> constraint_bundle" where
  "getConstraints m =
     (case performanceLevel m of
        High \<Rightarrow> \<lparr>bundle_maxSegments = Fin 4, maxJiggle = Fin 2, maxVariation = Fin 0.3,
                 allowSquash = True, allowSecondaryAction = True\<rparr>
      | Medium \<Rightarrow> \<lparr>bundle_maxSegments = Fin 3, maxJiggle = Fin 1, maxVariation = Fin 0.2,
                   allowSquash = True, allowSecondaryAction = True\<rparr>
      | Low \<Rightarrow> \<lparr>bundle_maxSegments = Fin 2, maxJiggle = Fin 0, maxVariation = Fin 0.1,
                allowSquash = False, allowSecondaryAction = False\<rparr>)"

definition onPerformanceChange :: "callback \<Rightarrow> monitor \<Rightarrow> monitor" where
  "onPerformanceChange callback m = m\<lparr>callbacks := callbacks m @ [callback]\<rparr>"

text \<open>
  One round of the \<open>forEach\<close> in \<open>notifyCallbacks\<close>: the call of the subscriber at index
  \<open>i\<close>, and the \<open>catch\<close> that logs what it throws.
\<close>

definition notify_one :: "monitor \<Rightarrow> nat \<times> callback \<Rightarrow> window \<Rightarrow> window" where
  "notify_one m ic w =
     (case ic of (i, callback) \<Rightarrow>
        let w1 = emit (Call_callback i (fps m) (performanceLevel m) (getConstraints m)) w
        in (case callback (fps m) (performanceLevel m) (getConstraints m) of
              None \<Rightarrow> w1
            | Some error \<Rightarrow> emit (Console_error_callback error) w1))"

definition notifyCallbacks :: "monitor \<Rightarrow> window \<Rightarrow> window" where
  "notifyCallbacks m w = fold (notify_one m) (enumerate 0 (callbacks m)) w"

definition updateUI :: "monitor \<Rightarrow> window \<Rightarrow> window" where
  "updateUI m w = emit (Call_updateUI (fps m) (performanceLevel m)) w"

text \<open>\<open>Math.round\<close>: the nearest integer, a half rounded up.\<close>

definition Math_round :: "real \<Rightarrow> int" where
  "Math_round x = \<lfloor>x + 1 / 2\<rfloor>"

text \<open>
  One call of \<open>tick\<close>, at the time \<open>currentTime\<close> of \<open>performance.now()\<close>; \<open>pushed_at\<close> and
  \<open>now\<close> are the two readings of \<open>Date.now()\<close> in \<open>updateHistory\<close>.
\<close>

definition window_closes :: "monitor \<Rightarrow> real \<Rightarrow> bool" where
  "window_closes m currentTime \<longleftrightarrow> monitoring m \<and> currentTime - lastTime m \<ge> 1000"

definition tick :: "real \<Rightarrow> int \<Rightarrow> int \<Rightarrow> monitor \<times> window \<Rightarrow> monitor \<times> window" where
  "tick currentTime pushed_at now mw =
     (case mw of (m, w) \<Rightarrow>
        if \<not> monitoring m then (m, w)
        else
          let m1 = m\<lparr>frameCount := frameCount m + 1\<rparr> in
          if currentTime - lastTime m1 \<ge> 1000 then
            (let m2 = m1\<lparr>fps := Math_round (real (frameCount m1 * 1000) / (currentTime - lastTime m1))\<rparr>;
                 m3 = m2\<lparr>frameCount := 0\<rparr>;
                 m4 = m3\<lparr>lastTime := currentTime\<rparr>;
                 m5 = updateHistory pushed_at now m4;
                 (m6, w1) = adjustPerformanceLevel (m5, w);
                 w2 = notifyCallbacks m6 w1;
                 w3 = updateUI m6 w2
             in (m6, emit Call_requestAnimationFrame w3))
          else (m1, emit Call_requestAnimationFrame w))"

text \<open>
  Feeding one FPS sample per window to the classifier: the sample becomes \<open>fps\<close>, then
  \<open>adjustPerformanceLevel\<close> runs. \<open>windows\<close> is the list of the states after each sample;
  the trace of each state holds the effects of its own window only.
\<close>

definition feed_sample :: "int \<Rightarrow> monitor \<times> window \<Rightarrow> monitor \<times> window" where
  "feed_sample sample mw =
     (case mw of (m, w) \<Rightarrow> adjustPerformanceLevel (m\<lparr>fps := sample\<rparr>, w\<lparr>trace := []\<rparr>))"

fun windows :: "int list \<Rightarrow> monitor \<times> window \<Rightarrow> (monitor \<times> window) list" where
  "windows [] mw = []"
| "windows (sample # samples) mw =
     (let mw1 = feed_sample sample mw in mw1 # windows samples mw1)"

text \<open>
  A run of the monitor with its surroundings: a window closes with an FPS sample, or other
  code (a preset, an import of settings) rewrites the parameters of the engine.
\<close>

datatype monitor_event = Window_close int | Rewrite_params engine_params

fun is_rewrite :: "monitor_event \<Rightarrow> bool" where
  "is_rewrite (Rewrite_params _) = True"
| "is_rewrite (Window_close _) = False"

fun monitor_step :: "monitor_event \<Rightarrow> monitor \<times> window \<Rightarrow> monitor \<times> window" where
  "monitor_step (Window_close sample) mw = feed_sample sample mw"
| "monitor_step (Rewrite_params p) mw =
     (fst mw, (snd mw)\<lparr>animationEngine :=
                 map_option (\<lambda>e. e\<lparr>animationParams := p\<rparr>) (animationEngine (snd mw))\<rparr>)"

definition monitor_run :: "monitor_event list \<Rightarrow> monitor \<times> window \<Rightarrow> monitor \<times> window" where
  "monitor_run events mw = fold monitor_step events mw"

text \<open>The parameter object that the constructor of the animation engine builds.\<close>

definition ButteryAnimationEngine :: engine where
  "ButteryAnimationEngine =
     \<lparr>animationParams =
        \<lparr>timing =
           \<lparr>maxSegments = None, organicVariation = None,
            timing_other = [(''baseDuration'', Num (Fin 1500)), (''staggerDelay'', Num (Fin 300))]\<rparr>,
         secondaryAction =
           \<lparr>jiggleIntensity = Some (Fin 1), maxJiggles = Some (Fin 3),
            secondaryAction_other = [(''enabled'', Bool True)]\<rparr>,
         squashAndStretch =
           \<lparr>enabled = Some True, squashAmount = Some (Fin 0.9), stretchAmount = Some (Fin 1.1),
            squashAndStretch_other = [(''squashDuration'', Num (Fin 0.15))]\<rparr>,
         other_groups =
           [(''anticipation'',
               Obj [(''enabled'', Bool True), (''pullbackAmount'', Num (Fin 0.95)),
                    (''pauseDuration'', Num (Fin 0.05))]),
            (''followThrough'',
               Obj [(''enabled'', Bool True), (''overshootAmount'', Num (Fin 1.05)),
                    (''settleDuration'', Num (Fin 0.2))])]\<rparr>\<rparr>"

definition enforce_invoked :: "monitor \<times> window \<Rightarrow> bool" where
  "enforce_invoked mw \<longleftrightarrow> Call_enforceConstraints \<in> set (trace (snd mw))"

fun is_assignment :: "effect \<Rightarrow> bool" where
  "is_assignment (Assign_engine_param _ _) = True"
| "is_assignment _ = False"

definition clamp_applied :: "monitor \<times> window \<Rightarrow> bool" where
  "clamp_applied mw \<longleftrightarrow> list_ex is_assignment (trace (snd mw))"

text \<open>The parameters hold the four values of the Low-tier clamp.\<close>

definition clamped :: "engine \<Rightarrow> bool" where
  "clamped e \<longleftrightarrow>
     maxSegments (timing (animationParams e)) = Some (Fin 2) \<and>
     jiggleIntensity (secondaryAction (animationParams e)) = Some (Fin 0) \<and>
     organicVariation (timing (animationParams e)) = Some (Fin 0.1) \<and>
     enabled (squashAndStretch (animationParams e)) = Some False"

fun is_call_callback :: "effect \<Rightarrow> bool" where
  "is_call_callback (Call_callback _ _ _ _) = True"
| "is_call_callback _ = False"

subsection \<open>getMetrics\<close>

text \<open>
  The arithmetic of \<open>getMetrics\<close> on the integers that the history holds. The quotient
  of two integers is NaN or infinite when the divisor is \<open>0\<close>; \<open>Math.min()\<close> and
  \<open>Math.max()\<close> of no argument are \<open>Infinity\<close> and \<open>-Infinity\<close>.
\<close>

definition js_divide :: "int \<Rightarrow> nat \<Rightarrow> number" where
  "js_divide a n =
     (if n = 0 then (if a = 0 then NaN else if a > 0 then PosInf else NegInf)
      else Fin (real_of_int a / real n))"

fun Math_round_number :: "number \<Rightarrow> number" where
  "Math_round_number (Fin x) = Fin (real_of_int (Math_round x))"
| "Math_round_number n = n"

definition Math_min_spread :: "int list \<Rightarrow> number" where
  "Math_min_spread xs = fold (\<lambda>x acc. Math_min acc (Fin (real_of_int x))) xs PosInf"

definition Math_max_spread :: "int list \<Rightarrow> number" where
  "Math_max_spread xs = fold (\<lambda>x acc. Math_max acc (Fin (real_of_int x))) xs NegInf"

record metrics =
  currentFPS :: int
  metrics_performanceLevel :: tier
  averageFPS :: number
  minFPS :: number
  maxFPS :: number
  dataPoints :: nat

definition getMetrics :: "monitor \<Rightarrow> metrics" where
  "getMetrics m =
     \<lparr>currentFPS = fps m,
      metrics_performanceLevel = performanceLevel m,
      averageFPS =
        (if length (history m) > 0
         then Math_round_number
                (js_divide (fold (\<lambda>entry sum. sum + entry_fps entry) (history m) 0)
                   (length (history m)))
         else Fin (real_of_int (fps m))),
      minFPS =
        (if length (history m) > 0 then Math_min_spread (map entry_fps (history m))
         else Fin (real_of_int (fps m))),
      maxFPS =
        (if length (history m) > 0 then Math_max_spread (map entry_fps (history m))
         else Fin (real_of_int (fps m))),
      dataPoints = length (history m)\<rparr>"

section \<open>GPUOnlyAnimationBuilder\<close>

text \<open>
  The timeline is known by the tweens that \<open>timeline.to\<close> has been given. Every tween
  carries the same \<open>onComplete\<close>, which decrements the counter of its builder.
\<close>

record tween =
  tween_target :: jsval
  vars :: obj
  position :: number

record builder =
  timeline :: "tween list"
  builder_params :: params
  animationCount :: int
  console :: "string list"

definition GPUOnlyAnimationBuilder :: "tween list \<Rightarrow> params \<Rightarrow> builder" where
  "GPUOnlyAnimationBuilder tweens ps =
     \<lparr>timeline = tweens, builder_params = validateParameters ps, animationCount = 0, console = []\<rparr>"

definition blocked_warning :: "string \<Rightarrow> string" where
  "blocked_warning key = ''Blocked non-GPU property: '' @ key @ '' (maintaining 60fps)''"

definition limit_warning :: string where
  "limit_warning = ''Animation limit reached, skipping to maintain 60fps''"

record request =
  target :: jsval
  properties :: obj
  duration :: "number option"
  ease :: "string option"
  delay :: "number option"

definition safeAnimate :: "request \<Rightarrow> builder \<Rightarrow> builder" where
  "safeAnimate r b0 =
     (let duration_arg = (case duration r of None \<Rightarrow> Fin 1 | Some d \<Rightarrow> d);
          ease_arg = (case ease r of None \<Rightarrow> ''power2.out'' | Some e \<Rightarrow> e);
          delay_arg = (case delay r of None \<Rightarrow> Fin 0 | Some d \<Rightarrow> d);
          (gpuProperties, blocked) = filterGPUProperties (properties r);
          b = b0\<lparr>console := console b0 @ map blocked_warning blocked\<rparr>
      in if animationCount b \<ge> MAX_CONCURRENT_ANIMATIONS
         then b\<lparr>console := console b @ [limit_warning]\<rparr>
         else
           let safeDuration = Math_max duration_arg MIN_ANIMATION_DURATION;
               b1 = b\<lparr>animationCount := animationCount b + 1\<rparr>
           in b1\<lparr>timeline := timeline b1 @
                  [\<lparr>tween_target = target r,
                    vars = AList.update ''ease'' (Str ease_arg)
                             (AList.update ''duration'' (Num safeDuration) gpuProperties),
                    position = delay_arg\<rparr>]\<rparr>)"

definition onComplete :: "builder \<Rightarrow> builder" where
  "onComplete b = b\<lparr>animationCount := animationCount b - 1\<rparr>"

text \<open>
  What happens to a builder: a request is submitted, or the timeline reports the
  completion of a tween and calls its \<open>onComplete\<close>.
\<close>

datatype builder_event = Submit request | Complete

fun builder_step :: "builder_event \<Rightarrow> builder \<Rightarrow> builder" where
  "builder_step (Submit r) b = safeAnimate r b"
| "builder_step Complete b = onComplete b"

definition builder_run :: "builder_event list \<Rightarrow> builder \<Rightarrow> builder" where
  "builder_run events b = fold builder_step events b"

text \<open>The requests that the timeline holds beyond the warnings: dropped means nothing is kept.\<close>

definition unchanged_but_console :: "builder \<Rightarrow> builder \<Rightarrow> bool" where
  "unchanged_but_console b b' \<longleftrightarrow>
     timeline b' = timeline b \<and> builder_params b' = builder_params b \<and>
     animationCount b' = animationCount b"

text \<open>Two requests on which the clamping is evaluated.\<close>

definition zero_jiggle :: params where
  "zero_jiggle =
     \<lparr>timing = None,
      secondaryAction =
        Some \<lparr>jiggleIntensity = Some (Fin 0), maxJiggles = None, secondaryAction_other = []\<rparr>,
      squashAndStretch = None,
      other_groups = []\<rparr>"

definition out_of_range_timing :: timing_params where
  "out_of_range_timing =
     \<lparr>maxSegments = Some (Fin 9), organicVariation = None, timing_other = []\<rparr>"

definition out_of_range_secondaryAction :: secondaryAction_params where
  "out_of_range_secondaryAction =
     \<lparr>jiggleIntensity = Some (Fin 7), maxJiggles = None, secondaryAction_other = []\<rparr>"

definition out_of_range_squashAndStretch :: squashAndStretch_params where
  "out_of_range_squashAndStretch =
     \<lparr>enabled = Some True, squashAmount = Some (Fin 0.2), stretchAmount = Some (Fin 2),
      squashAndStretch_other = []\<rparr>"

definition out_of_range :: params where
  "out_of_range =
     \<lparr>timing = Some out_of_range_timing,
      secondaryAction = Some out_of_range_secondaryAction,
      squashAndStretch = Some out_of_range_squashAndStretch,
      other_groups = []\<rparr>"

text \<open>States on which the monitor is evaluated: an engine is registered, or none is.\<close>

definition engine_registered :: window where
  "engine_registered = \<lparr>animationEngine = Some ButteryAnimationEngine, trace = []\<rparr>"

definition no_engine :: window where
  "no_engine = \<lparr>animationEngine = None, trace = []\<rparr>"

definition monitor_at :: "int \<Rightarrow> tier \<Rightarrow> monitor" where
  "monitor_at f level = (PerformanceMonitor 0)\<lparr>fps := f, performanceLevel := level\<rparr>"

text \<open>A monitor with three subscribers, the second of which throws, 43 frames into a window.\<close>

definition three_subscribers :: monitor where
  "three_subscribers =
     (PerformanceMonitor 0)
       \<lparr>frameCount := 43,
        callbacks := [\<lambda>f l b. None, \<lambda>f l b. Some ''subscriber failed'', \<lambda>f l b. None]\<rparr>"

text \<open>A request that mixes properties on the allow-list with properties that are not.\<close>

definition mixed_properties :: obj where
  "mixed_properties =
     [(''x'', Num (Fin 100)), (''width'', Num (Fin 3)), (''attr'', Obj [(''d'', Str ''M0 0'')]),
      (''duration'', Num (Fin 2)), (''backgroundColor'', Str ''red'')]"

text \<open>A monitor that has recorded the samples 58 and 45.\<close>

definition two_samples :: monitor where
  "two_samples =
     (PerformanceMonitor 0)
       \<lparr>fps := 45, performanceLevel := Medium,
        history := [\<lparr>entry_fps = 58, timestamp = 1000, entry_performanceLevel = High\<rparr>,
                    \<lparr>entry_fps = 45, timestamp = 2000, entry_performanceLevel = High\<rparr>]\<rparr>"

text \<open>A request with a duration below the minimum, and a builder at the cap.\<close>

definition move_right :: request where
  "move_right =
     \<lparr>target = Str ''#bar'', properties = [(''x'', Num (Fin 100))], duration = Some (Fin 0.01),
      ease = None, delay = None\<rparr>"

definition full_builder :: builder where
  "full_builder = (GPUOnlyAnimationBuilder [] zero_jiggle)\<lparr>animationCount := 8\<rparr>"

section \<open>Properties of validateParameters\<close>

lemma js_or_nullish: "absent_or_truthy v \<Longrightarrow> js_or v d = nullish v d"
  by (cases v) (auto simp: absent_or_truthy_def nullish_def)

lemma truthy_js_or: "truthy (Some d) \<Longrightarrow> truthy (Some (js_or v d))"
  by (cases v) auto

lemma js_or_not_NaN: "js_or v (Fin d) \<noteq> NaN"
  by (cases v rule: truthy.cases) auto

lemma truthy_Math_min: "truthy (Some a) \<Longrightarrow> c \<noteq> 0 \<Longrightarrow> truthy (Some (Math_min a (Fin c)))"
  by (cases a) (auto simp: Math_min_def)

lemma truthy_Math_max: "truthy (Some a) \<Longrightarrow> c \<noteq> 0 \<Longrightarrow> truthy (Some (Math_max a (Fin c)))"
  by (cases a) (auto simp: Math_max_def)

lemma Math_min_idem: "Math_min (Math_min a c) c = Math_min a c"
  by (cases a; cases c) (auto simp: Math_min_def)

lemma Math_max_idem: "Math_max (Math_max a c) c = Math_max a c"
  by (cases a; cases c) (auto simp: Math_max_def)

lemma Math_min_le_ceiling: "a \<noteq> NaN \<Longrightarrow> num_le (Math_min a (Fin c)) (Fin c)"
  by (cases a) (auto simp: Math_min_def)

lemma Math_max_ge_floor: "a \<noteq> NaN \<Longrightarrow> num_le (Fin c) (Math_max a (Fin c))"
  by (cases a) (auto simp: Math_max_def)

text \<open>
  Clamping a second time changes nothing: the clamped value is truthy, so \<open>||\<close> keeps it,
  and \<open>Math.min\<close> against the same ceiling is idempotent.
\<close>

lemma clamp_min_twice:
  assumes "d \<noteq> 0" and "c \<noteq> 0"
  shows "Math_min (js_or (Some (Math_min (js_or v (Fin d)) (Fin c))) (Fin d)) (Fin c)
         = Math_min (js_or v (Fin d)) (Fin c)"
proof -
  have "truthy (Some (js_or v (Fin d)))"
    using assms by (intro truthy_js_or) simp
  then have "truthy (Some (Math_min (js_or v (Fin d)) (Fin c)))"
    using assms by (intro truthy_Math_min)
  then show ?thesis
    by (simp only: js_or.simps if_True Math_min_idem)
qed

lemma clamp_max_twice:
  assumes "d \<noteq> 0" and "c \<noteq> 0"
  shows "Math_max (js_or (Some (Math_max (js_or v (Fin d)) (Fin c))) (Fin d)) (Fin c)
         = Math_max (js_or v (Fin d)) (Fin c)"
proof -
  have "truthy (Some (js_or v (Fin d)))"
    using assms by (intro truthy_js_or) simp
  then have "truthy (Some (Math_max (js_or v (Fin d)) (Fin c)))"
    using assms by (intro truthy_Math_max)
  then show ?thesis
    by (simp only: js_or.simps if_True Math_max_idem)
qed

lemma validate_timing_idem: "validate_timing (validate_timing t) = validate_timing t"
  by (simp add: validate_timing_def MAX_SEGMENTS_PER_YEAR_def MAX_TIMING_VARIATION_def
      clamp_min_twice del: js_or.simps)

lemma validate_secondaryAction_idem:
  "validate_secondaryAction (validate_secondaryAction s) = validate_secondaryAction s"
  by (simp add: validate_secondaryAction_def clamp_min_twice del: js_or.simps)

lemma validate_squashAndStretch_idem:
  "validate_squashAndStretch (validate_squashAndStretch q) = validate_squashAndStretch q"
  by (simp add: validate_squashAndStretch_def clamp_min_twice clamp_max_twice del: js_or.simps)

lemma validateParameters_groups:
  "timing (validateParameters p) = map_option validate_timing (timing p)"
  "secondaryAction (validateParameters p) = map_option validate_secondaryAction (secondaryAction p)"
  "squashAndStretch (validateParameters p) =
     map_option validate_squashAndStretch (squashAndStretch p)"
  "other_groups (validateParameters p) = other_groups p"
  by (simp_all add: validateParameters_def split: option.splits)

text \<open>
  C2, as the claim states it, fails: for the request \<open>{secondaryAction: {jiggleIntensity: 0}}\<close>
  the formula gives \<open>min(0 ?? 2, 3) = 0\<close>, and \<open>validateParameters\<close> returns \<open>2\<close>, since \<open>||\<close>
  takes the default for \<open>0\<close>; and the group \<open>timing\<close>, absent from the request, is absent
  from the result, so that \<open>timing.maxSegments\<close> is not \<open>4\<close>.
\<close>

theorem validateParameters_formulas_counterexample:
  "\<not> documented_formulas zero_jiggle (validateParameters zero_jiggle)
   \<and> field_of (secondaryAction (validateParameters zero_jiggle)) jiggleIntensity = Some (Fin 2)
   \<and> Math_min (nullish (field_of (secondaryAction zero_jiggle) jiggleIntensity) (Fin 2)) (Fin 3)
       = Fin 0
   \<and> timing (validateParameters zero_jiggle) = None"
  by (simp add: documented_formulas_def zero_jiggle_def validateParameters_def field_of_def
      validate_secondaryAction_def nullish_def Math_min_def)

text \<open>
  C2, amended: \<open>validateParameters\<close> raises no error and returns the record in which every
  group that is present has been clamped and every group that is absent stays absent. In a
  group that is present, a requested value that is absent or a number other than \<open>0\<close> and
  NaN is replaced as documented: \<open>maxSegments = min(requested ?? 4, 4)\<close>,
  \<open>organicVariation = min(requested ?? 0.3, 0.5)\<close>, \<open>jiggleIntensity = min(requested ?? 2, 3)\<close>,
  \<open>maxJiggles = min(requested ?? 3, 5)\<close>, \<open>squashAmount = max(requested ?? 0.9, 0.7)\<close>,
  \<open>stretchAmount = min(requested ?? 1.1, 1.3)\<close>; the other fields keep their values.
\<close>

theorem validateParameters_formulas:
  "timing (validateParameters p) = map_option validate_timing (timing p)
   \<and> secondaryAction (validateParameters p)
       = map_option validate_secondaryAction (secondaryAction p)
   \<and> squashAndStretch (validateParameters p)
       = map_option validate_squashAndStretch (squashAndStretch p)
   \<and> other_groups (validateParameters p) = other_groups p
   \<and> (absent_or_truthy (maxSegments t) \<longrightarrow>
        maxSegments (validate_timing t)
          = Some (Math_min (nullish (maxSegments t) (Fin 4)) (Fin 4)))
   \<and> (absent_or_truthy (organicVariation t) \<longrightarrow>
        organicVariation (validate_timing t)
          = Some (Math_min (nullish (organicVariation t) (Fin 0.3)) (Fin 0.5)))
   \<and> timing_other (validate_timing t) = timing_other t
   \<and> (absent_or_truthy (jiggleIntensity s) \<longrightarrow>
        jiggleIntensity (validate_secondaryAction s)
          = Some (Math_min (nullish (jiggleIntensity s) (Fin 2)) (Fin 3)))
   \<and> (absent_or_truthy (maxJiggles s) \<longrightarrow>
        maxJiggles (validate_secondaryAction s)
          = Some (Math_min (nullish (maxJiggles s) (Fin 3)) (Fin 5)))
   \<and> secondaryAction_other (validate_secondaryAction s) = secondaryAction_other s
   \<and> (absent_or_truthy (squashAmount q) \<longrightarrow>
        squashAmount (validate_squashAndStretch q)
          = Some (Math_max (nullish (squashAmount q) (Fin 0.9)) (Fin 0.7)))
   \<and> (absent_or_truthy (stretchAmount q) \<longrightarrow>
        stretchAmount (validate_squashAndStretch q)
          = Some (Math_min (nullish (stretchAmount q) (Fin 1.1)) (Fin 1.3)))
   \<and> enabled (validate_squashAndStretch q) = enabled q
   \<and> squashAndStretch_other (validate_squashAndStretch q) = squashAndStretch_other q"
  by (simp add: validateParameters_groups validate_timing_def validate_secondaryAction_def
      validate_squashAndStretch_def MAX_SEGMENTS_PER_YEAR_def MAX_TIMING_VARIATION_def
      js_or_nullish del: js_or.simps)

theorem validateParameters_formulas_witness:
  "absent_or_truthy (maxSegments out_of_range_timing)
   \<and> absent_or_truthy (organicVariation out_of_range_timing)
   \<and> absent_or_truthy (jiggleIntensity out_of_range_secondaryAction)
   \<and> absent_or_truthy (maxJiggles out_of_range_secondaryAction)
   \<and> absent_or_truthy (squashAmount out_of_range_squashAndStretch)
   \<and> absent_or_truthy (stretchAmount out_of_range_squashAndStretch)
   \<and> validateParameters out_of_range =
       \<lparr>timing = Some \<lparr>maxSegments = Some (Fin 4), organicVariation = Some (Fin 0.3),
                       timing_other = []\<rparr>,
        secondaryAction = Some \<lparr>jiggleIntensity = Some (Fin 3), maxJiggles = Some (Fin 3),
                                secondaryAction_other = []\<rparr>,
        squashAndStretch = Some \<lparr>enabled = Some True, squashAmount = Some (Fin 0.7),
                                 stretchAmount = Some (Fin 1.3),
                                 squashAndStretch_other = []\<rparr>,
        other_groups = []\<rparr>"
  using validateParameters_formulas [of out_of_range out_of_range_timing
      out_of_range_secondaryAction out_of_range_squashAndStretch]
  by (simp add: out_of_range_def out_of_range_timing_def out_of_range_secondaryAction_def
      out_of_range_squashAndStretch_def absent_or_truthy_def nullish_def Math_min_def
      Math_max_def)

text \<open>
  C8: \<open>validateParameters\<close> is idempotent, and in its result every clamped field of a group
  that is present holds a number within the documented bound: \<open>maxSegments\<close> at most \<open>4\<close>,
  \<open>organicVariation\<close> at most \<open>0.5\<close>, \<open>jiggleIntensity\<close> at most \<open>3\<close>, \<open>maxJiggles\<close> at most
  \<open>5\<close>, \<open>stretchAmount\<close> at most \<open>1.3\<close>, \<open>squashAmount\<close> at least \<open>0.7\<close>.
\<close>

theorem validateParameters_idempotent_bounded:
  "validateParameters (validateParameters p) = validateParameters p
   \<and> (\<forall>t. timing (validateParameters p) = Some t \<longrightarrow>
         (\<exists>a b. maxSegments t = Some a \<and> num_le a (Fin 4)
              \<and> organicVariation t = Some b \<and> num_le b (Fin 0.5)))
   \<and> (\<forall>s. secondaryAction (validateParameters p) = Some s \<longrightarrow>
         (\<exists>a b. jiggleIntensity s = Some a \<and> num_le a (Fin 3)
              \<and> maxJiggles s = Some b \<and> num_le b (Fin 5)))
   \<and> (\<forall>q. squashAndStretch (validateParameters p) = Some q \<longrightarrow>
         (\<exists>a b. squashAmount q = Some a \<and> num_le (Fin 0.7) a
              \<and> stretchAmount q = Some b \<and> num_le b (Fin 1.3)))"
proof -
  have idem: "validateParameters (validateParameters p) = validateParameters p"
    by (cases "timing p"; cases "secondaryAction p"; cases "squashAndStretch p")
       (simp_all add: validateParameters_def validate_timing_idem validate_secondaryAction_idem
          validate_squashAndStretch_idem)
  have t: "\<exists>a b. maxSegments (validate_timing t) = Some a \<and> num_le a (Fin 4)
              \<and> organicVariation (validate_timing t) = Some b \<and> num_le b (Fin 0.5)" for t
    by (simp add: validate_timing_def MAX_SEGMENTS_PER_YEAR_def MAX_TIMING_VARIATION_def
        Math_min_le_ceiling js_or_not_NaN del: js_or.simps)
  have s: "\<exists>a b. jiggleIntensity (validate_secondaryAction s) = Some a \<and> num_le a (Fin 3)
              \<and> maxJiggles (validate_secondaryAction s) = Some b \<and> num_le b (Fin 5)" for s
    by (simp add: validate_secondaryAction_def Math_min_le_ceiling js_or_not_NaN
        del: js_or.simps)
  have q: "\<exists>a b. squashAmount (validate_squashAndStretch q) = Some a \<and> num_le (Fin 0.7) a
              \<and> stretchAmount (validate_squashAndStretch q) = Some b \<and> num_le b (Fin 1.3)" for q
    by (simp add: validate_squashAndStretch_def Math_min_le_ceiling Math_max_ge_floor
        js_or_not_NaN del: js_or.simps)
  show ?thesis
    using idem t s q by (auto simp: validateParameters_groups)
qed

theorem validateParameters_idempotent_bounded_witness:
  "timing (validateParameters out_of_range) =
     Some \<lparr>maxSegments = Some (Fin 4), organicVariation = Some (Fin 0.3), timing_other = []\<rparr>
   \<and> secondaryAction (validateParameters out_of_range) =
     Some \<lparr>jiggleIntensity = Some (Fin 3), maxJiggles = Some (Fin 3),
           secondaryAction_other = []\<rparr>
   \<and> squashAndStretch (validateParameters out_of_range) =
     Some \<lparr>enabled = Some True, squashAmount = Some (Fin 0.7), stretchAmount = Some (Fin 1.3),
           squashAndStretch_other = []\<rparr>
   \<and> validateParameters (validateParameters out_of_range) = validateParameters out_of_range
   \<and> num_le (Fin 4) (Fin 4) \<and> num_le (Fin 0.3) (Fin 0.5) \<and> num_le (Fin 3) (Fin 3)
   \<and> num_le (Fin 3) (Fin 5) \<and> num_le (Fin 0.7) (Fin 0.7) \<and> num_le (Fin 1.3) (Fin 1.3)"
  using validateParameters_idempotent_bounded [of out_of_range]
  by (simp add: out_of_range_def out_of_range_timing_def out_of_range_secondaryAction_def
      out_of_range_squashAndStretch_def validateParameters_def validate_timing_def
      validate_secondaryAction_def validate_squashAndStretch_def MAX_SEGMENTS_PER_YEAR_def
      MAX_TIMING_VARIATION_def Math_min_def Math_max_def)

section \<open>Properties of the PerformanceMonitor\<close>

subsection \<open>One window of the classifier\<close>

lemma enforceConstraints_engine:
  "animationEngine (enforceConstraints m w) =
     (if performanceLevel m = Low then map_option force_safe_parameters (animationEngine w)
      else animationEngine w)"
  by (auto simp: enforceConstraints_def emit_def Let_def showPerformanceWarning_def
      split: option.splits)

lemma enforceConstraints_trace:
  "trace (enforceConstraints m w) =
     trace w @ Call_enforceConstraints #
       (if performanceLevel m = Low
        then Console_warn_strict_mode (fps m) #
             (case animationEngine w of
                None \<Rightarrow> []
              | Some e \<Rightarrow> safe_parameter_assignments @ [Call_showPerformanceWarning (fps m)])
        else [])"
  by (auto simp: enforceConstraints_def emit_def Let_def showPerformanceWarning_def
      split: option.splits)

lemma adjustPerformanceLevel_fields:
  "performanceLevel (fst (adjustPerformanceLevel mw)) = classify (fps (fst mw))"
  "fps (fst (adjustPerformanceLevel mw)) = fps (fst mw)"
  "callbacks (fst (adjustPerformanceLevel mw)) = callbacks (fst mw)"
  "history (fst (adjustPerformanceLevel mw)) = history (fst mw)"
  by (cases mw; simp add: adjustPerformanceLevel_def Let_def)+

lemma adjustPerformanceLevel_trace:
  "trace (snd (adjustPerformanceLevel mw)) =
     trace (snd mw) @
     (if classify (fps (fst mw)) = performanceLevel (fst mw) then []
      else [Console_log_level_changed (performanceLevel (fst mw)) (classify (fps (fst mw)))
              (fps (fst mw)),
            Call_enforceConstraints] @
           (if classify (fps (fst mw)) = Low
            then Console_warn_strict_mode (fps (fst mw)) #
                 (case animationEngine (snd mw) of
                    None \<Rightarrow> []
                  | Some e \<Rightarrow>
                      safe_parameter_assignments @ [Call_showPerformanceWarning (fps (fst mw))])
            else []))"
  by (cases mw)
     (auto simp: adjustPerformanceLevel_def Let_def enforceConstraints_trace emit_def
      split: option.splits)

lemma adjustPerformanceLevel_engine:
  "animationEngine (snd (adjustPerformanceLevel mw)) =
     (if classify (fps (fst mw)) \<noteq> performanceLevel (fst mw) \<and> classify (fps (fst mw)) = Low
      then map_option force_safe_parameters (animationEngine (snd mw))
      else animationEngine (snd mw))"
  by (cases mw)
     (auto simp: adjustPerformanceLevel_def Let_def enforceConstraints_engine emit_def)

lemma feed_sample_level: "performanceLevel (fst (feed_sample s mw)) = classify s"
  by (cases mw) (simp add: feed_sample_def adjustPerformanceLevel_fields)

lemma feed_sample_trace:
  "trace (snd (feed_sample s mw)) =
     (if classify s = performanceLevel (fst mw) then []
      else [Console_log_level_changed (performanceLevel (fst mw)) (classify s) s,
            Call_enforceConstraints] @
           (if classify s = Low
            then Console_warn_strict_mode s #
                 (case animationEngine (snd mw) of
                    None \<Rightarrow> []
                  | Some e \<Rightarrow> safe_parameter_assignments @ [Call_showPerformanceWarning s])
            else []))"
  by (cases mw) (simp add: feed_sample_def adjustPerformanceLevel_trace split: option.splits)

lemma feed_sample_engine:
  "animationEngine (snd (feed_sample s mw)) =
     (if classify s \<noteq> performanceLevel (fst mw) \<and> classify s = Low
      then map_option force_safe_parameters (animationEngine (snd mw))
      else animationEngine (snd mw))"
  by (cases mw) (simp add: feed_sample_def adjustPerformanceLevel_engine)

lemma force_safe_parameters_clamped: "clamped (force_safe_parameters e)"
  by (simp add: clamped_def force_safe_parameters_def Let_def)

lemma force_safe_parameters_fixed: "clamped e \<Longrightarrow> force_safe_parameters e = e"
  by (simp add: clamped_def force_safe_parameters_def Let_def)

lemma force_safe_parameters_fields:
  "animationParams (force_safe_parameters e) =
     \<lparr>timing =
        \<lparr>maxSegments = Some (Fin 2), organicVariation = Some (Fin 0.1),
         timing_other = timing_other (timing (animationParams e))\<rparr>,
      secondaryAction =
        \<lparr>jiggleIntensity = Some (Fin 0),
         maxJiggles = maxJiggles (secondaryAction (animationParams e)),
         secondaryAction_other = secondaryAction_other (secondaryAction (animationParams e))\<rparr>,
      squashAndStretch =
        \<lparr>enabled = Some False,
         squashAmount = squashAmount (squashAndStretch (animationParams e)),
         stretchAmount = stretchAmount (squashAndStretch (animationParams e)),
         squashAndStretch_other = squashAndStretch_other (squashAndStretch (animationParams e))\<rparr>,
      other_groups = other_groups (animationParams e)\<rparr>"
  by (simp add: force_safe_parameters_def Let_def)

subsection \<open>The end-to-end scenario\<close>

text \<open>
  C1: from the tier High, the samples \<open>[58,58,58,44,44,30,52,58]\<close>, one per window, give the
  tiers \<open>[High,High,High,Low,Low,Low,Medium,High]\<close>; \<open>enforceConstraints\<close> is invoked in the
  windows 3, 6 and 7 and in no other; the parameters of the engine are assigned in window 3
  only (and in none when no engine is registered). The parameters of a registered engine
  are the initial ones after the windows 0, 1 and 2; after window 3 and after every later
  window they are the initial ones with \<open>timing.maxSegments = 2\<close>,
  \<open>secondaryAction.jiggleIntensity = 0\<close>, \<open>timing.organicVariation = 0.1\<close> and
  \<open>squashAndStretch.enabled = false\<close>, the windows 6 and 7 restoring nothing.
\<close>

theorem end_to_end_scenario:
  assumes "performanceLevel m = High"
  shows "map (\<lambda>mw. performanceLevel (fst mw)) (windows [58, 58, 58, 44, 44, 30, 52, 58] (m, w))
           = [High, High, High, Low, Low, Low, Medium, High]
       \<and> map enforce_invoked (windows [58, 58, 58, 44, 44, 30, 52, 58] (m, w))
           = [False, False, False, True, False, False, True, True]
       \<and> map clamp_applied (windows [58, 58, 58, 44, 44, 30, 52, 58] (m, w))
           = [False, False, False, animationEngine w \<noteq> None, False, False, False, False]
       \<and> (animationEngine w = None \<longrightarrow>
             map (\<lambda>mw. animationEngine (snd mw)) (windows [58, 58, 58, 44, 44, 30, 52, 58] (m, w))
               = replicate 8 None)
       \<and> (\<forall>e. animationEngine w = Some e \<longrightarrow>
             map (\<lambda>mw. map_option animationParams (animationEngine (snd mw)))
               (windows [58, 58, 58, 44, 44, 30, 52, 58] (m, w))
               = replicate 3 (Some (animationParams e)) @
                 replicate 5
                   (Some
                     \<lparr>timing =
                        \<lparr>maxSegments = Some (Fin 2), organicVariation = Some (Fin 0.1),
                         timing_other = timing_other (timing (animationParams e))\<rparr>,
                      secondaryAction =
                        \<lparr>jiggleIntensity = Some (Fin 0),
                         maxJiggles = maxJiggles (secondaryAction (animationParams e)),
                         secondaryAction_other =
                           secondaryAction_other (secondaryAction (animationParams e))\<rparr>,
                      squashAndStretch =
                        \<lparr>enabled = Some False,
                         squashAmount = squashAmount (squashAndStretch (animationParams e)),
                         stretchAmount = stretchAmount (squashAndStretch (animationParams e)),
                         squashAndStretch_other =
                           squashAndStretch_other (squashAndStretch (animationParams e))\<rparr>,
                      other_groups = other_groups (animationParams e)\<rparr>))"
proof -
  let ?ws = "windows [58, 58, 58, 44, 44, 30, 52, 58] (m, w)"
  have tiers: "map (\<lambda>mw. performanceLevel (fst mw)) ?ws
      = [High, High, High, Low, Low, Low, Medium, High]"
    by (simp add: Let_def feed_sample_level classify_def)
  have invoked: "map enforce_invoked ?ws
      = [False, False, False, True, False, False, True, True]"
    using assms
    by (simp add: Let_def feed_sample_level feed_sample_trace classify_def enforce_invoked_def)
  have assigned: "map clamp_applied ?ws
      = [False, False, False, animationEngine w \<noteq> None, False, False, False, False]"
    using assms
    by (simp add: Let_def feed_sample_level feed_sample_trace feed_sample_engine classify_def
        clamp_applied_def safe_parameter_assignments_def split: option.splits)
  have engines: "map (\<lambda>mw. animationEngine (snd mw)) ?ws
      = replicate 3 (animationEngine w)
        @ replicate 5 (map_option force_safe_parameters (animationEngine w))"
    using assms
    by (simp add: Let_def feed_sample_level feed_sample_engine classify_def eval_nat_numeral
        force_safe_parameters_clamped force_safe_parameters_fixed option.map_comp comp_def)
  have none: "map (\<lambda>mw. animationEngine (snd mw)) ?ws = replicate 8 None"
    if "animationEngine w = None"
    using that by (simp only: engines option.map replicate_add [symmetric]) simp
  have some: "map (\<lambda>mw. map_option animationParams (animationEngine (snd mw))) ?ws
      = replicate 3 (Some (animationParams e))
        @ replicate 5 (Some (animationParams (force_safe_parameters e)))"
    if "animationEngine w = Some e" for e
  proof -
    have "map (\<lambda>mw. map_option animationParams (animationEngine (snd mw))) ?ws
        = map (map_option animationParams) (map (\<lambda>mw. animationEngine (snd mw)) ?ws)"
      by (simp only: map_map comp_def)
    then show ?thesis
      by (simp only: engines that map_append map_replicate option.map)
  qed
  show ?thesis
    using tiers invoked assigned none some
    by (simp only: force_safe_parameters_fields) blast
qed

theorem end_to_end_scenario_witness:
  "performanceLevel (PerformanceMonitor 0) = High
   \<and> animationEngine engine_registered = Some ButteryAnimationEngine
   \<and> map (\<lambda>mw. performanceLevel (fst mw))
       (windows [58, 58, 58, 44, 44, 30, 52, 58] (PerformanceMonitor 0, engine_registered))
       = [High, High, High, Low, Low, Low, Medium, High]
   \<and> map enforce_invoked
       (windows [58, 58, 58, 44, 44, 30, 52, 58] (PerformanceMonitor 0, engine_registered))
       = [False, False, False, True, False, False, True, True]
   \<and> map clamp_applied
       (windows [58, 58, 58, 44, 44, 30, 52, 58] (PerformanceMonitor 0, engine_registered))
       = [False, False, False, True, False, False, False, False]
   \<and> map (\<lambda>mw. map_option animationParams (animationEngine (snd mw)))
       (windows [58, 58, 58, 44, 44, 30, 52, 58] (PerformanceMonitor 0, engine_registered))
       = replicate 3 (Some (animationParams ButteryAnimationEngine)) @
         replicate 5
           (Some
             \<lparr>timing =
                \<lparr>maxSegments = Some (Fin 2), organicVariation = Some (Fin 0.1),
                 timing_other =
                   [(''baseDuration'', Num (Fin 1500)), (''staggerDelay'', Num (Fin 300))]\<rparr>,
              secondaryAction =
                \<lparr>jiggleIntensity = Some (Fin 0), maxJiggles = Some (Fin 3),
                 secondaryAction_other = [(''enabled'', Bool True)]\<rparr>,
              squashAndStretch =
                \<lparr>enabled = Some False, squashAmount = Some (Fin 0.9),
                 stretchAmount = Some (Fin 1.1),
                 squashAndStretch_other = [(''squashDuration'', Num (Fin 0.15))]\<rparr>,
              other_groups = other_groups (animationParams ButteryAnimationEngine)\<rparr>)
   \<and> maxSegments (timing (animationParams ButteryAnimationEngine)) = None
   \<and> enabled (squashAndStretch (animationParams ButteryAnimationEngine)) = Some True"
  using end_to_end_scenario [of "PerformanceMonitor 0" engine_registered]
  by (simp add: PerformanceMonitor_def engine_registered_def ButteryAnimationEngine_def)

subsection \<open>The frame of enforceConstraints\<close>

text \<open>
  C4: \<open>adjustPerformanceLevel\<close> invokes \<open>enforceConstraints\<close> exactly when the tier changes,
  and a window without a change leaves monitor and surroundings as they are.
  \<open>enforceConstraints\<close> at a tier other than Low leaves the registered engine, with all its
  parameters, unchanged and assigns nothing. At the tier Low it assigns exactly
  \<open>timing.maxSegments = 2\<close>, \<open>secondaryAction.jiggleIntensity = 0\<close>,
  \<open>timing.organicVariation = 0.1\<close> and \<open>squashAndStretch.enabled = false\<close>; every other field
  of the parameters keeps its value.
\<close>

theorem enforceConstraints_frame:
  "(classify (fps m0) = performanceLevel m0 \<longrightarrow> adjustPerformanceLevel (m0, w0) = (m0, w0))
   \<and> (enforce_invoked (adjustPerformanceLevel (m, w\<lparr>trace := []\<rparr>))
        \<longleftrightarrow> classify (fps m) \<noteq> performanceLevel m)
   \<and> (performanceLevel m1 \<noteq> Low \<longrightarrow>
        animationEngine (enforceConstraints m1 w1) = animationEngine w1
        \<and> filter is_assignment (trace (enforceConstraints m1 w1))
            = filter is_assignment (trace w1))
   \<and> (performanceLevel m2 = Low \<longrightarrow> animationEngine w2 = Some e \<longrightarrow>
        (\<exists>e'. animationEngine (enforceConstraints m2 w2) = Some e'
           \<and> animationParams e' =
               \<lparr>timing =
                  \<lparr>maxSegments = Some (Fin 2), organicVariation = Some (Fin 0.1),
                   timing_other = timing_other (timing (animationParams e))\<rparr>,
                secondaryAction =
                  \<lparr>jiggleIntensity = Some (Fin 0),
                   maxJiggles = maxJiggles (secondaryAction (animationParams e)),
                   secondaryAction_other =
                     secondaryAction_other (secondaryAction (animationParams e))\<rparr>,
                squashAndStretch =
                  \<lparr>enabled = Some False,
                   squashAmount = squashAmount (squashAndStretch (animationParams e)),
                   stretchAmount = stretchAmount (squashAndStretch (animationParams e)),
                   squashAndStretch_other =
                     squashAndStretch_other (squashAndStretch (animationParams e))\<rparr>,
                other_groups = other_groups (animationParams e)\<rparr>)
        \<and> filter is_assignment (trace (enforceConstraints m2 w2))
            = filter is_assignment (trace w2) @ safe_parameter_assignments)"
proof -
  have steady: "classify (fps m0) = performanceLevel m0 \<longrightarrow>
      adjustPerformanceLevel (m0, w0) = (m0, w0)"
    by (simp add: adjustPerformanceLevel_def Let_def)
  have invoked: "enforce_invoked (adjustPerformanceLevel (m, w\<lparr>trace := []\<rparr>))
      \<longleftrightarrow> classify (fps m) \<noteq> performanceLevel m"
    by (simp add: enforce_invoked_def adjustPerformanceLevel_trace)
  have other: "performanceLevel m1 \<noteq> Low \<longrightarrow>
      animationEngine (enforceConstraints m1 w1) = animationEngine w1
      \<and> filter is_assignment (trace (enforceConstraints m1 w1))
          = filter is_assignment (trace w1)"
    by (simp add: enforceConstraints_engine enforceConstraints_trace)
  have low: "filter is_assignment (trace (enforceConstraints m2 w2))
          = filter is_assignment (trace w2) @ safe_parameter_assignments"
    if "performanceLevel m2 = Low" "animationEngine w2 = Some e"
    using that by (simp add: enforceConstraints_trace safe_parameter_assignments_def)
  show ?thesis
    using steady invoked other low
    by (simp add: enforceConstraints_engine force_safe_parameters_fields)
qed

theorem enforceConstraints_frame_witness:
  "classify (fps (PerformanceMonitor 0)) = performanceLevel (PerformanceMonitor 0)
   \<and> adjustPerformanceLevel (PerformanceMonitor 0, engine_registered)
       = (PerformanceMonitor 0, engine_registered)
   \<and> performanceLevel (monitor_at 50 Medium) \<noteq> Low
   \<and> animationEngine (enforceConstraints (monitor_at 50 Medium) engine_registered)
       = Some ButteryAnimationEngine
   \<and> performanceLevel (monitor_at 40 Low) = Low
   \<and> animationEngine engine_registered = Some ButteryAnimationEngine
   \<and> animationEngine (enforceConstraints (monitor_at 40 Low) engine_registered)
       = Some (force_safe_parameters ButteryAnimationEngine)
   \<and> filter is_assignment (trace (enforceConstraints (monitor_at 40 Low) engine_registered))
       = safe_parameter_assignments"
  using enforceConstraints_frame [of "PerformanceMonitor 0" engine_registered
      "PerformanceMonitor 0" engine_registered "monitor_at 50 Medium" engine_registered
      "monitor_at 40 Low" engine_registered ButteryAnimationEngine]
  by (simp add: PerformanceMonitor_def engine_registered_def monitor_at_def classify_def
      enforceConstraints_engine)

subsection \<open>The one-way ratchet\<close>

lemma monitor_step_clamped:
  assumes "animationEngine (snd mw) = Some e" and "clamped e" and "\<not> is_rewrite event"
  shows "animationEngine (snd (monitor_step event mw)) = Some e"
  using assms
  by (cases event) (simp_all add: feed_sample_engine force_safe_parameters_fixed)

lemma monitor_run_clamped:
  assumes "animationEngine (snd mw) = Some e" and "clamped e"
    and "\<not> list_ex is_rewrite events"
  shows "animationEngine (snd (monitor_run events mw)) = Some e"
  using assms unfolding monitor_run_def
proof (induction events arbitrary: mw)
  case Nil
  then show ?case by simp
next
  case (Cons event events)
  from Cons.prems have "animationEngine (snd (monitor_step event mw)) = Some e"
    by (intro monitor_step_clamped) simp_all
  with Cons show ?case by simp
qed

text \<open>
  C5: when a window takes the tier to Low with an engine registered, the clamp fires; in
  every run that follows in which no other code rewrites the parameters, whatever the
  samples and the tiers they lead to, the parameters are still the clamped ones at the
  end. A window whose sample classifies as Medium or High assigns no parameter and
  leaves the engine as it is.
\<close>

theorem one_way_ratchet:
  assumes "animationEngine w = Some e" and "performanceLevel m \<noteq> Low"
    and "classify sample = Low" and "\<not> list_ex is_rewrite later"
  shows "animationEngine (snd (monitor_run (Window_close sample # later) (m, w)))
           = Some (force_safe_parameters e)
       \<and> clamped (force_safe_parameters e)
       \<and> (\<forall>s mw. classify s \<noteq> Low \<longrightarrow>
             \<not> clamp_applied (feed_sample s mw)
             \<and> animationEngine (snd (feed_sample s mw)) = animationEngine (snd mw))"
proof -
  have fired: "animationEngine (snd (feed_sample sample (m, w))) = Some (force_safe_parameters e)"
    using assms(1-3) by (simp add: feed_sample_engine)
  have "animationEngine (snd (monitor_run later (feed_sample sample (m, w))))
          = Some (force_safe_parameters e)"
    using fired force_safe_parameters_clamped assms(4) by (rule monitor_run_clamped)
  moreover have "\<not> clamp_applied (feed_sample s mw)
      \<and> animationEngine (snd (feed_sample s mw)) = animationEngine (snd mw)"
    if "classify s \<noteq> Low" for s mw
    using that by (simp add: clamp_applied_def feed_sample_trace feed_sample_engine)
  ultimately show ?thesis
    by (simp add: monitor_run_def force_safe_parameters_clamped)
qed

theorem one_way_ratchet_witness:
  "animationEngine engine_registered = Some ButteryAnimationEngine
   \<and> performanceLevel (PerformanceMonitor 0) \<noteq> Low
   \<and> classify 44 = Low
   \<and> \<not> list_ex is_rewrite [Window_close 52, Window_close 58]
   \<and> performanceLevel
       (fst (monitor_run [Window_close 44, Window_close 52, Window_close 58]
          (PerformanceMonitor 0, engine_registered))) = High
   \<and> animationEngine
       (snd (monitor_run [Window_close 44, Window_close 52, Window_close 58]
          (PerformanceMonitor 0, engine_registered)))
       = Some (force_safe_parameters ButteryAnimationEngine)
   \<and> maxSegments (timing (animationParams (force_safe_parameters ButteryAnimationEngine)))
       = Some (Fin 2)"
  using one_way_ratchet [of engine_registered ButteryAnimationEngine "PerformanceMonitor 0" 44
      "[Window_close 52, Window_close 58]"]
  by (simp add: engine_registered_def PerformanceMonitor_def classify_def monitor_run_def
      feed_sample_level force_safe_parameters_fields)

subsection \<open>Notification of the subscribers\<close>

text \<open>What the round for one subscriber adds to the trace: its call, then the error it threw.\<close>

lemma notify_one_trace:
  "trace (notify_one m ic w) =
     trace w @
       Call_callback (fst ic) (fps m) (performanceLevel m) (getConstraints m) #
       (case snd ic (fps m) (performanceLevel m) (getConstraints m) of
          None \<Rightarrow> []
        | Some error \<Rightarrow> [Console_error_callback error])"
  by (cases ic) (simp add: notify_one_def emit_def Let_def split: option.splits)

lemma fold_notify_one_trace:
  "trace (fold (notify_one m) ics w) =
     trace w @
       concat (map (\<lambda>ic. Call_callback (fst ic) (fps m) (performanceLevel m) (getConstraints m) #
                      (case snd ic (fps m) (performanceLevel m) (getConstraints m) of
                         None \<Rightarrow> []
                       | Some error \<Rightarrow> [Console_error_callback error])) ics)"
  by (induction ics arbitrary: w) (simp_all add: notify_one_trace)

lemma notifyCallbacks_trace:
  "trace (notifyCallbacks m w) =
     trace w @
       concat (map (\<lambda>ic. Call_callback (fst ic) (fps m) (performanceLevel m) (getConstraints m) #
                      (case snd ic (fps m) (performanceLevel m) (getConstraints m) of
                         None \<Rightarrow> []
                       | Some error \<Rightarrow> [Console_error_callback error]))
                 (enumerate 0 (callbacks m)))"
  by (simp add: notifyCallbacks_def fold_notify_one_trace)

lemma calls_of_rounds:
  "filter is_call_callback
     (concat (map (\<lambda>ic. Call_callback (fst ic) f l b #
                     (case snd ic f l b of None \<Rightarrow> [] | Some error \<Rightarrow> [Console_error_callback error]))
                ics))
   = map (\<lambda>ic. Call_callback (fst ic) f l b) ics"
  by (induction ics) (simp_all split: option.splits)

lemma notifyCallbacks_calls:
  "filter is_call_callback (trace (notifyCallbacks m w)) =
     filter is_call_callback (trace w) @
       map (\<lambda>i. Call_callback i (fps m) (performanceLevel m) (getConstraints m))
         [0..<length (callbacks m)]"
proof -
  have "map (\<lambda>ic. Call_callback (fst ic) (fps m) (performanceLevel m) (getConstraints m))
          (enumerate 0 (callbacks m))
        = map (\<lambda>i. Call_callback i (fps m) (performanceLevel m) (getConstraints m))
            (map fst (enumerate 0 (callbacks m)))"
    by (simp only: map_map comp_def)
  also have "map fst (enumerate 0 (callbacks m)) = [0..<length (callbacks m)]"
    by simp
  finally show ?thesis
    by (simp only: notifyCallbacks_trace calls_of_rounds filter_append)
qed

lemma notifyCallbacks_errors:
  assumes "i < length (callbacks m)"
    and "(callbacks m ! i) (fps m) (performanceLevel m) (getConstraints m) = Some error"
  shows "Console_error_callback error \<in> set (trace (notifyCallbacks m w))"
proof -
  have "(i, callbacks m ! i) \<in> set (enumerate 0 (callbacks m))"
    using assms(1) by (simp add: in_set_enumerate_eq)
  then show ?thesis
    using assms(2) by (force simp: notifyCallbacks_trace)
qed

lemma adjustPerformanceLevel_calls:
  "filter is_call_callback (trace (snd (adjustPerformanceLevel mw)))
     = filter is_call_callback (trace (snd mw))"
  by (simp add: adjustPerformanceLevel_trace safe_parameter_assignments_def
      split: option.splits)

text \<open>The monitor and the trace after a tick that closes a window.\<close>

lemma tick_window_close:
  assumes "window_closes m currentTime"
  shows "tick currentTime pushed_at now (m, w) =
     (let m4 = m\<lparr>fps := Math_round (real ((frameCount m + 1) * 1000) / (currentTime - lastTime m)),
                 frameCount := 0, lastTime := currentTime\<rparr>;
          mw = adjustPerformanceLevel (updateHistory pushed_at now m4, w)
      in (fst mw,
          emit Call_requestAnimationFrame (updateUI (fst mw) (notifyCallbacks (fst mw) (snd mw)))))"
  using assms
  by (simp add: tick_def window_closes_def Let_def case_prod_beta)

text \<open>
  C6: \<open>onPerformanceChange\<close> registers a subscriber after those already registered. A
  tick that closes a window calls every registered subscriber, once and in the order of
  registration, with the new \<open>fps\<close>, the tier of that \<open>fps\<close> and the bundle of that tier,
  whether or not the tier changed. What a subscriber throws is logged by \<open>console.error\<close>;
  the list of subscribers is unchanged, and the subscribers after it are called with the
  same arguments.
\<close>

theorem notify_every_window:
  assumes "window_closes m currentTime"
    and "tick currentTime pushed_at now (m, w\<lparr>trace := []\<rparr>) = (m', w')"
  shows "callbacks (onPerformanceChange callback m0) = callbacks m0 @ [callback]
       \<and> fps m' = Math_round (real ((frameCount m + 1) * 1000) / (currentTime - lastTime m))
       \<and> performanceLevel m' = classify (fps m')
       \<and> callbacks m' = callbacks m
       \<and> filter is_call_callback (trace w')
           = map (\<lambda>i. Call_callback i (fps m') (performanceLevel m') (getConstraints m'))
               [0..<length (callbacks m)]
       \<and> (\<forall>i error. i < length (callbacks m) \<longrightarrow>
             (callbacks m ! i) (fps m') (performanceLevel m') (getConstraints m') = Some error \<longrightarrow>
             Console_error_callback error \<in> set (trace w'))"
proof -
  define m4 where "m4 = m\<lparr>fps :=
      Math_round (real ((frameCount m + 1) * 1000) / (currentTime - lastTime m)),
      frameCount := 0, lastTime := currentTime\<rparr>"
  define mw where "mw = adjustPerformanceLevel (updateHistory pushed_at now m4, w\<lparr>trace := []\<rparr>)"
  have "tick currentTime pushed_at now (m, w\<lparr>trace := []\<rparr>) =
      (fst mw, emit Call_requestAnimationFrame (updateUI (fst mw) (notifyCallbacks (fst mw) (snd mw))))"
    using assms(1) by (simp add: tick_window_close Let_def m4_def mw_def)
  with assms(2) have m': "m' = fst mw"
    and w': "w' = emit Call_requestAnimationFrame (updateUI m' (notifyCallbacks m' (snd mw)))"
    by auto
  have fps: "fps m' = fps m4" and cbs: "callbacks m' = callbacks m"
    and level: "performanceLevel m' = classify (fps m4)"
    by (simp_all add: m' mw_def adjustPerformanceLevel_fields updateHistory_def Let_def m4_def)
  have before: "filter is_call_callback (trace (snd mw)) = []"
    by (simp add: mw_def adjustPerformanceLevel_calls)
  have calls: "filter is_call_callback (trace w')
      = map (\<lambda>i. Call_callback i (fps m') (performanceLevel m') (getConstraints m'))
          [0..<length (callbacks m)]"
    by (simp add: w' emit_def updateUI_def notifyCallbacks_calls before cbs)
  have errors: "Console_error_callback error \<in> set (trace w')"
    if "i < length (callbacks m)"
      and "(callbacks m ! i) (fps m') (performanceLevel m') (getConstraints m') = Some error"
    for i error
  proof -
    have "Console_error_callback error \<in> set (trace (notifyCallbacks m' (snd mw)))"
      using that by (intro notifyCallbacks_errors [of i]) (simp_all add: cbs)
    then show ?thesis
      by (simp add: w' emit_def updateUI_def)
  qed
  show ?thesis
    using fps level cbs calls errors by (simp add: m4_def onPerformanceChange_def)
qed

theorem notify_every_window_witness:
  "window_closes three_subscribers 1000
   \<and> fst (tick 1000 5000 5000 (three_subscribers, no_engine)) =
       three_subscribers\<lparr>fps := 44, frameCount := 0, lastTime := 1000, performanceLevel := Low,
         history := [\<lparr>entry_fps = 44, timestamp = 5000, entry_performanceLevel = High\<rparr>]\<rparr>
   \<and> trace (snd (tick 1000 5000 5000 (three_subscribers, no_engine))) =
       [Console_log_level_changed High Low 44, Call_enforceConstraints,
        Console_warn_strict_mode 44,
        Call_callback 0 44 Low (getConstraints (monitor_at 44 Low)),
        Call_callback 1 44 Low (getConstraints (monitor_at 44 Low)),
        Console_error_callback ''subscriber failed'',
        Call_callback 2 44 Low (getConstraints (monitor_at 44 Low)),
        Call_updateUI 44 Low, Call_requestAnimationFrame]"
  using notify_every_window [of three_subscribers 1000 5000 5000 no_engine
      "fst (tick 1000 5000 5000 (three_subscribers, no_engine))"
      "snd (tick 1000 5000 5000 (three_subscribers, no_engine))" "\<lambda>f l b. None"
      three_subscribers]
  by (simp add: three_subscribers_def no_engine_def PerformanceMonitor_def window_closes_def
      tick_def Let_def updateHistory_def adjustPerformanceLevel_def classify_def
      enforceConstraints_def emit_def notifyCallbacks_def notify_one_def getConstraints_def
      updateUI_def Math_round_def monitor_at_def enumerate_eq_zip upt_rec)

section \<open>Properties of filterGPUProperties\<close>

lemma isGPUSafeAttribute_iff:
  "isGPUSafeAttribute v \<longleftrightarrow> (\<forall>sub \<in> set (Object_keys v). sub \<in> set safeAttrs)"
  by (simp add: isGPUSafeAttribute_def list_all_iff)

text \<open>The branches of the \<open>forEach\<close> body: the first three keep the key, the last reports it.\<close>

lemma filter_property_allowed:
  "filter_property (key, v) (safe, blocked) =
     (if allowed key v then (AList.update key v safe, blocked) else (safe, blocked @ [key]))"
  by (auto simp: filter_property_def allowed_def isGPUSafeAttribute_iff)

lemma fold_filter_property_safe:
  assumes "distinct (map fst kvs)"
  shows "map_of (fst (fold filter_property kvs (safe, blocked))) key =
     (case map_of kvs key of
        None \<Rightarrow> map_of safe key
      | Some v \<Rightarrow> if allowed key v then Some v else map_of safe key)"
  using assms
proof (induction kvs arbitrary: safe blocked)
  case Nil
  then show ?case by simp
next
  case (Cons kv kvs)
  obtain k v where kv: "kv = (k, v)" by (cases kv)
  from Cons.prems kv have fresh: "map_of kvs k = None" and rest: "distinct (map fst kvs)"
    by (simp_all add: map_of_eq_None_iff)
  show ?case
  proof (cases "allowed k v")
    case True
    with Cons.IH [OF rest, of "AList.update k v safe" blocked] fresh show ?thesis
      by (auto simp: kv filter_property_allowed update_conv' split: option.splits)
  next
    case False
    with Cons.IH [OF rest, of safe "blocked @ [k]"] fresh show ?thesis
      by (auto simp: kv filter_property_allowed split: option.splits)
  qed
qed

lemma fold_filter_property_blocked:
  "snd (fold filter_property kvs (safe, blocked)) =
     blocked @ map fst (filter (\<lambda>kv. \<not> allowed (fst kv) (snd kv)) kvs)"
proof (induction kvs arbitrary: safe blocked)
  case Nil
  then show ?case by simp
next
  case (Cons kv kvs)
  then show ?case
    by (cases kv) (simp add: filter_property_allowed)
qed

lemma filterGPUProperties_safe:
  "map_of (fst (filterGPUProperties props)) key =
     (case map_of props key of
        None \<Rightarrow> None
      | Some v \<Rightarrow> if allowed key v then Some v else None)"
  by (simp add: filterGPUProperties_def fold_filter_property_safe distinct_clearjunk
      map_of_clearjunk split: option.splits)

lemma filterGPUProperties_blocked:
  "set (snd (filterGPUProperties props)) =
     {key. \<exists>v. map_of props key = Some v \<and> \<not> allowed key v}"
proof -
  have "(k, v) \<in> set (AList.clearjunk props) \<longleftrightarrow> map_of props k = Some v" for k v
    using map_of_eq_Some_iff [OF distinct_clearjunk, of props k v]
    by (simp add: map_of_clearjunk)
  then show ?thesis
    by (force simp: filterGPUProperties_def fold_filter_property_blocked)
qed

text \<open>
  C7: every property of the result of \<open>filterGPUProperties\<close> is a property of the input
  with the same value, and its key is a GPU-only property, one of \<open>duration\<close>, \<open>ease\<close>,
  \<open>delay\<close>, or \<open>attr\<close> with every key of its value among the safe attributes. The function
  returns for every input: a property of the input that is none of these is omitted from
  the result and reported by \<open>console.warn\<close>.
\<close>

theorem filterGPUProperties_subset_allowed:
  "(\<forall>key v. map_of (fst (filterGPUProperties props)) key = Some v \<longrightarrow>
      map_of props key = Some v
      \<and> (key \<in> set GPU_ONLY_PROPERTIES
         \<or> key \<in> {''duration'', ''ease'', ''delay''}
         \<or> (key = ''attr'' \<and> (\<forall>sub \<in> set (Object_keys v). sub \<in> set safeAttrs))))
   \<and> (\<forall>key v. map_of props key = Some v \<longrightarrow> \<not> allowed key v \<longrightarrow>
         map_of (fst (filterGPUProperties props)) key = None
         \<and> key \<in> set (snd (filterGPUProperties props)))"
proof -
  have "map_of props key = Some v \<and> allowed key v"
    if "map_of (fst (filterGPUProperties props)) key = Some v" for key v
    using that by (auto simp: filterGPUProperties_safe split: option.splits if_splits)
  moreover have "map_of (fst (filterGPUProperties props)) key = None
      \<and> key \<in> set (snd (filterGPUProperties props))"
    if "map_of props key = Some v" "\<not> allowed key v" for key v
    using that by (auto simp: filterGPUProperties_safe filterGPUProperties_blocked)
  ultimately show ?thesis
    unfolding allowed_def by blast
qed

theorem filterGPUProperties_subset_allowed_witness:
  "filterGPUProperties mixed_properties =
     ([(''x'', Num (Fin 100)), (''attr'', Obj [(''d'', Str ''M0 0'')]), (''duration'', Num (Fin 2))],
      [''width'', ''backgroundColor''])
   \<and> map_of (fst (filterGPUProperties mixed_properties)) ''x'' = Some (Num (Fin 100))
   \<and> map_of mixed_properties ''x'' = Some (Num (Fin 100))
   \<and> ''x'' \<in> set GPU_ONLY_PROPERTIES
   \<and> map_of mixed_properties ''width'' = Some (Num (Fin 3))
   \<and> \<not> allowed ''width'' (Num (Fin 3))
   \<and> map_of (fst (filterGPUProperties mixed_properties)) ''width'' = None"
  using filterGPUProperties_subset_allowed [of mixed_properties]
  by (simp add: mixed_properties_def filterGPUProperties_def filter_property_def
      GPU_ONLY_PROPERTIES_def isGPUSafeAttribute_def safeAttrs_def allowed_def AList.delete_eq)

text \<open>
  C9: the test of \<open>isGPUSafeAttribute\<close> holds of the empty object, no key being there to
  fail it; so where the input has \<open>attr\<close> with the empty object as its value, the result
  has \<open>attr\<close> with that value, and \<open>attr\<close> is not reported.
\<close>

theorem empty_attr_passes:
  assumes "map_of props ''attr'' = Some (Obj [])"
  shows "isGPUSafeAttribute (Obj [])
       \<and> map_of (fst (filterGPUProperties props)) ''attr'' = Some (Obj [])
       \<and> ''attr'' \<notin> set (snd (filterGPUProperties props))"
  using assms
  by (simp add: filterGPUProperties_safe filterGPUProperties_blocked allowed_def
      isGPUSafeAttribute_def)

theorem empty_attr_passes_witness:
  "map_of [(''fill'', Str ''red''), (''attr'', Obj [])] ''attr'' = Some (Obj [])
   \<and> filterGPUProperties [(''fill'', Str ''red''), (''attr'', Obj [])]
       = ([(''attr'', Obj [])], [''fill''])"
  using empty_attr_passes [of "[(''fill'', Str ''red''), (''attr'', Obj [])]"]
  by (simp add: filterGPUProperties_def filter_property_def GPU_ONLY_PROPERTIES_def
      isGPUSafeAttribute_def AList.delete_eq)

section \<open>Properties of getMetrics\<close>

lemma fold_sum_fps:
  "fold (\<lambda>entry sum. sum + entry_fps entry) h a = a + sum_list (map entry_fps h)"
  by (induction h arbitrary: a) simp_all

lemma fold_Math_min_Fin:
  "fold (\<lambda>x acc. Math_min acc (Fin (real_of_int x))) xs (Fin (real_of_int a))
     = Fin (real_of_int (fold min xs a))"
proof (induction xs arbitrary: a)
  case Nil
  then show ?case by simp
next
  case (Cons x xs)
  have "Math_min (Fin (real_of_int a)) (Fin (real_of_int x)) = Fin (real_of_int (min x a))"
    by (simp add: Math_min_def min_def)
  with Cons.IH [of "min x a"] show ?case by simp
qed

lemma fold_Math_max_Fin:
  "fold (\<lambda>x acc. Math_max acc (Fin (real_of_int x))) xs (Fin (real_of_int a))
     = Fin (real_of_int (fold max xs a))"
proof (induction xs arbitrary: a)
  case Nil
  then show ?case by simp
next
  case (Cons x xs)
  have "Math_max (Fin (real_of_int a)) (Fin (real_of_int x)) = Fin (real_of_int (max x a))"
    by (simp add: Math_max_def max_def)
  with Cons.IH [of "max x a"] show ?case by simp
qed

lemma Math_min_spread_nonempty:
  assumes "xs \<noteq> []"
  shows "Math_min_spread xs = Fin (real_of_int (Min (set xs)))"
proof -
  from assms obtain x rest where xs: "xs = x # rest"
    by (cases xs) auto
  have first: "Math_min PosInf (Fin (real_of_int x)) = Fin (real_of_int x)"
    by (simp add: Math_min_def)
  have "Math_min_spread xs = Fin (real_of_int (fold min rest x))"
    by (simp add: xs Math_min_spread_def first fold_Math_min_Fin)
  also have "fold min rest x = Min (set xs)"
    unfolding xs by (rule Min.set_eq_fold [symmetric])
  finally show ?thesis .
qed

lemma Math_max_spread_nonempty:
  assumes "xs \<noteq> []"
  shows "Math_max_spread xs = Fin (real_of_int (Max (set xs)))"
proof -
  from assms obtain x rest where xs: "xs = x # rest"
    by (cases xs) auto
  have first: "Math_max NegInf (Fin (real_of_int x)) = Fin (real_of_int x)"
    by (simp add: Math_max_def)
  have "Math_max_spread xs = Fin (real_of_int (fold max rest x))"
    by (simp add: xs Math_max_spread_def first fold_Math_max_Fin)
  also have "fold max rest x = Max (set xs)"
    unfolding xs by (rule Max.set_eq_fold [symmetric])
  finally show ?thesis .
qed

text \<open>
  C10: on an empty history \<open>getMetrics\<close> returns the current \<open>fps\<close> as average, minimum and
  maximum, and \<open>0\<close> data points; no quotient by \<open>0\<close> and no minimum or maximum of nothing is
  taken, the three values being finite numbers. On a history that is not empty the
  average is the mean of the recorded \<open>fps\<close> values rounded by \<open>Math.round\<close>, and the minimum
  and the maximum are those of the recorded values.
\<close>

theorem getMetrics_total:
  "(history m0 = [] \<longrightarrow>
      averageFPS (getMetrics m0) = Fin (real_of_int (fps m0))
      \<and> minFPS (getMetrics m0) = Fin (real_of_int (fps m0))
      \<and> maxFPS (getMetrics m0) = Fin (real_of_int (fps m0))
      \<and> dataPoints (getMetrics m0) = 0)
   \<and> (history m \<noteq> [] \<longrightarrow>
      averageFPS (getMetrics m) =
        Fin (real_of_int (Math_round (real_of_int (sum_list (map entry_fps (history m)))
                                       / real (length (history m)))))
      \<and> minFPS (getMetrics m) = Fin (real_of_int (Min (set (map entry_fps (history m)))))
      \<and> maxFPS (getMetrics m) = Fin (real_of_int (Max (set (map entry_fps (history m)))))
      \<and> dataPoints (getMetrics m) = length (history m))"
  by (simp add: getMetrics_def js_divide_def fold_sum_fps Math_min_spread_nonempty
      Math_max_spread_nonempty)

theorem getMetrics_total_witness:
  "history (PerformanceMonitor 0) = []
   \<and> getMetrics (PerformanceMonitor 0) =
       \<lparr>currentFPS = 60, metrics_performanceLevel = High, averageFPS = Fin 60, minFPS = Fin 60,
        maxFPS = Fin 60, dataPoints = 0\<rparr>
   \<and> history two_samples \<noteq> []
   \<and> getMetrics two_samples =
       \<lparr>currentFPS = 45, metrics_performanceLevel = Medium, averageFPS = Fin 52, minFPS = Fin 45,
        maxFPS = Fin 58, dataPoints = 2\<rparr>"
  using getMetrics_total [of "PerformanceMonitor 0" two_samples]
  by (simp add: PerformanceMonitor_def two_samples_def getMetrics_def js_divide_def
      Math_round_def Math_min_spread_def Math_max_spread_def Math_min_def Math_max_def)

section \<open>Properties of the GPUOnlyAnimationBuilder\<close>

lemma safeAnimate_at_cap:
  assumes "animationCount b \<ge> MAX_CONCURRENT_ANIMATIONS"
  shows "safeAnimate r b =
     b\<lparr>console := console b @ map blocked_warning (snd (filterGPUProperties (properties r)))
                    @ [limit_warning]\<rparr>"
  using assms by (simp add: safeAnimate_def Let_def case_prod_beta)

lemma safeAnimate_below_cap:
  assumes "animationCount b < MAX_CONCURRENT_ANIMATIONS"
  shows "animationCount (safeAnimate r b) = animationCount b + 1"
    and "length (timeline (safeAnimate r b)) = length (timeline b) + 1"
  using assms
  by (simp_all add: safeAnimate_def Let_def case_prod_beta)

lemma builder_step_cap:
  "animationCount b \<le> MAX_CONCURRENT_ANIMATIONS \<Longrightarrow>
   animationCount (builder_step event b) \<le> MAX_CONCURRENT_ANIMATIONS"
proof (cases event)
  case (Submit r)
  assume "animationCount b \<le> MAX_CONCURRENT_ANIMATIONS"
  then show ?thesis
    using safeAnimate_at_cap [of b r] safeAnimate_below_cap(1) [of b r]
    by (cases "animationCount b < MAX_CONCURRENT_ANIMATIONS") (simp_all add: Submit)
next
  case Complete
  assume "animationCount b \<le> MAX_CONCURRENT_ANIMATIONS"
  then show ?thesis
    by (simp add: Complete onComplete_def)
qed

lemma builder_run_cap:
  "animationCount b \<le> MAX_CONCURRENT_ANIMATIONS \<Longrightarrow>
   animationCount (builder_run events b) \<le> MAX_CONCURRENT_ANIMATIONS"
  unfolding builder_run_def
  by (induction events arbitrary: b) (simp_all add: builder_step_cap)

text \<open>Submitting a list of requests in a row, with no completion in between.\<close>

lemma submit_all_count:
  assumes "0 \<le> animationCount b" and "animationCount b \<le> MAX_CONCURRENT_ANIMATIONS"
  shows "animationCount (builder_run (map Submit rs) b)
           = min MAX_CONCURRENT_ANIMATIONS (animationCount b + int (length rs))
       \<and> int (length (timeline (builder_run (map Submit rs) b)))
           = int (length (timeline b))
             + (min MAX_CONCURRENT_ANIMATIONS (animationCount b + int (length rs))
                - animationCount b)"
  using assms unfolding builder_run_def
proof (induction rs arbitrary: b)
  case Nil
  then show ?case by simp
next
  case (Cons r rs)
  show ?case
  proof (cases "animationCount b < MAX_CONCURRENT_ANIMATIONS")
    case True
    with Cons.prems Cons.IH [of "safeAnimate r b"] show ?thesis
      by (simp add: safeAnimate_below_cap(1,2))
  next
    case False
    with Cons.prems Cons.IH [of "safeAnimate r b"] show ?thesis
      by (simp add: safeAnimate_at_cap)
  qed
qed

text \<open>
  C3: in every run of submissions and completions from a new builder the counter is at
  most \<open>MAX_CONCURRENT_ANIMATIONS = 8\<close>. A request submitted at the cap is dropped: the
  limit warning is logged, and timeline and counter stay as they are. A request below
  the cap adds one to the counter and one tween to the timeline; a completion
  subtracts one from the counter. Of nine requests in a row to a new builder eight are
  accepted and one is dropped; one completion takes the counter to seven, and
  the next request is accepted again.
\<close>

theorem concurrency_cap:
  "animationCount (builder_run events (GPUOnlyAnimationBuilder tweens ps))
     \<le> MAX_CONCURRENT_ANIMATIONS
   \<and> MAX_CONCURRENT_ANIMATIONS = 8
   \<and> (animationCount b = MAX_CONCURRENT_ANIMATIONS \<longrightarrow>
        unchanged_but_console b (safeAnimate r b)
        \<and> console (safeAnimate r b) =
            console b @ map blocked_warning (snd (filterGPUProperties (properties r)))
              @ [limit_warning])
   \<and> (animationCount b' < MAX_CONCURRENT_ANIMATIONS \<longrightarrow>
        animationCount (safeAnimate r b') = animationCount b' + 1
        \<and> length (timeline (safeAnimate r b')) = length (timeline b') + 1)
   \<and> animationCount (onComplete b) = animationCount b - 1
   \<and> timeline (onComplete b) = timeline b
   \<and> (length rs = 9 \<longrightarrow>
        animationCount (builder_run (map Submit rs) (GPUOnlyAnimationBuilder [] ps)) = 8
        \<and> length (timeline (builder_run (map Submit rs) (GPUOnlyAnimationBuilder [] ps))) = 8
        \<and> animationCount
            (builder_run (map Submit rs @ [Complete]) (GPUOnlyAnimationBuilder [] ps)) = 7
        \<and> animationCount
            (builder_run (map Submit rs @ [Complete, Submit r])
               (GPUOnlyAnimationBuilder [] ps)) = 8)"
proof -
  have new: "animationCount (GPUOnlyAnimationBuilder tweens ps) = 0"
    "timeline (GPUOnlyAnimationBuilder tweens ps) = tweens" for tweens
    by (simp_all add: GPUOnlyAnimationBuilder_def)
  have inv: "animationCount (builder_run events (GPUOnlyAnimationBuilder tweens ps))
      \<le> MAX_CONCURRENT_ANIMATIONS"
    by (rule builder_run_cap) (simp add: new MAX_CONCURRENT_ANIMATIONS_def)
  have dropped: "unchanged_but_console b (safeAnimate r b)
      \<and> console (safeAnimate r b) =
          console b @ map blocked_warning (snd (filterGPUProperties (properties r)))
            @ [limit_warning]"
    if "animationCount b = MAX_CONCURRENT_ANIMATIONS"
    using that by (simp add: safeAnimate_at_cap unchanged_but_console_def)
  have nine: "animationCount (builder_run (map Submit rs) (GPUOnlyAnimationBuilder [] ps)) = 8
      \<and> length (timeline (builder_run (map Submit rs) (GPUOnlyAnimationBuilder [] ps))) = 8"
    if "length rs = 9"
    using that submit_all_count [of "GPUOnlyAnimationBuilder [] ps" rs]
    by (simp add: new MAX_CONCURRENT_ANIMATIONS_def)
  have after: "animationCount
        (builder_run (map Submit rs @ [Complete]) (GPUOnlyAnimationBuilder [] ps)) = 7
      \<and> animationCount
        (builder_run (map Submit rs @ [Complete, Submit r]) (GPUOnlyAnimationBuilder [] ps)) = 8"
    if "length rs = 9"
  proof -
    define full where "full = builder_run (map Submit rs) (GPUOnlyAnimationBuilder [] ps)"
    have "animationCount (onComplete full) = 7"
      using nine [OF that] by (simp add: full_def onComplete_def)
    then show ?thesis
      using safeAnimate_below_cap(1) [of "onComplete full" r]
      by (simp add: builder_run_def full_def MAX_CONCURRENT_ANIMATIONS_def)
  qed
  show ?thesis
    using inv dropped nine after
    by (simp add: safeAnimate_below_cap(1,2) onComplete_def MAX_CONCURRENT_ANIMATIONS_def)
qed

theorem concurrency_cap_witness:
  "animationCount full_builder = MAX_CONCURRENT_ANIMATIONS
   \<and> safeAnimate move_right full_builder = full_builder\<lparr>console := [limit_warning]\<rparr>
   \<and> animationCount (GPUOnlyAnimationBuilder [] zero_jiggle) < MAX_CONCURRENT_ANIMATIONS
   \<and> animationCount (safeAnimate move_right (GPUOnlyAnimationBuilder [] zero_jiggle)) = 1
   \<and> timeline (safeAnimate move_right (GPUOnlyAnimationBuilder [] zero_jiggle)) =
       [\<lparr>tween_target = Str ''#bar'',
         vars = [(''x'', Num (Fin 100)), (''duration'', Num (Fin 0.05)),
                 (''ease'', Str ''power2.out'')],
         position = Fin 0\<rparr>]
   \<and> length (replicate 9 move_right) = 9
   \<and> animationCount
       (builder_run (map Submit (replicate 9 move_right) @ [Complete])
          (GPUOnlyAnimationBuilder [] zero_jiggle)) = 7"
  using concurrency_cap [of "[]" "[]" zero_jiggle full_builder move_right
      "GPUOnlyAnimationBuilder [] zero_jiggle" "replicate 9 move_right"]
  by (simp add: full_builder_def move_right_def GPUOnlyAnimationBuilder_def safeAnimate_def
      MAX_CONCURRENT_ANIMATIONS_def MIN_ANIMATION_DURATION_def Math_max_def
      filterGPUProperties_def filter_property_def GPU_ONLY_PROPERTIES_def)

end
